theory Spec2Isabelle
  imports Main
begin

section \<open>X.509 certificate profiles of package x509util\<close>

text \<open>
  The package builds certificate profiles: a subject certificate draft, an issuer
  certificate, the issuer's signing key and the subject's key pair. The drafts are Go
  pointers (\<^verbatim>\<open>*x509.Certificate\<close>), and two entry points hand the same pointer in as
  subject and as issuer, so certificates live in an explicit store and a profile holds
  addresses into it.
\<close>

subsection \<open>Values of the Go standard library\<close>

type_synonym ObjectIdentifier = "int list"

text \<open>
  \<^verbatim>\<open>time.Time\<close> is an instant and \<^verbatim>\<open>time.Duration\<close> a number of nanoseconds. Both are
  integers here, an instant counting nanoseconds from a fixed origin, so that
  \<^verbatim>\<open>t.Add(d)\<close> is \<open>t + d\<close> and \<^verbatim>\<open>u.Sub(t)\<close> is \<open>u - t\<close>.
\<close>

type_synonym Time = int
type_synonym Duration = int

definition Nanosecond :: Duration where "Nanosecond = 1"
definition Microsecond :: Duration where "Microsecond = 1000 * Nanosecond"
definition Millisecond :: Duration where "Millisecond = 1000 * Microsecond"
definition Second :: Duration where "Second = 1000 * Millisecond"
definition Minute :: Duration where "Minute = 60 * Second"
definition Hour :: Duration where "Hour = 60 * Minute"

definition Add :: "Time \<Rightarrow> Duration \<Rightarrow> Time" where
  "Add t d = t + d"

definition Sub :: "Time \<Rightarrow> Time \<Rightarrow> Duration" where
  "Sub u t = u - t"

text \<open>Keys are opaque values (\<^verbatim>\<open>crypto.PrivateKey\<close>, \<^verbatim>\<open>interface{}\<close>); \<open>None\<close> is nil.\<close>

type_synonym key = nat

text \<open>\<^verbatim>\<open>pkix.Name\<close>; a composite literal that names only \<^verbatim>\<open>CommonName\<close> leaves the rest zero.\<close>

record Name =
  Country :: "string list"
  Organization :: "string list"
  OrganizationalUnit :: "string list"
  Locality :: "string list"
  Province :: "string list"
  StreetAddress :: "string list"
  PostalCode :: "string list"
  SerialNumber :: string
  CommonName :: string
  Names :: "(ObjectIdentifier \<times> string) list"
  ExtraNames :: "(ObjectIdentifier \<times> string) list"

definition NameCN :: "string \<Rightarrow> Name" where
  "NameCN cn = \<lparr>Country = [], Organization = [], OrganizationalUnit = [], Locality = [],
     Province = [], StreetAddress = [], PostalCode = [], SerialNumber = [],
     CommonName = cn, Names = [], ExtraNames = []\<rparr>"

text \<open>\<^verbatim>\<open>x509.KeyUsage\<close> is an \<^verbatim>\<open>int\<close> bit set, each constant \<^verbatim>\<open>1 << iota\<close>.\<close>

type_synonym KeyUsage = int

definition KeyUsageDigitalSignature :: KeyUsage where "KeyUsageDigitalSignature = push_bit 0 1"
definition KeyUsageContentCommitment :: KeyUsage where "KeyUsageContentCommitment = push_bit 1 1"
definition KeyUsageKeyEncipherment :: KeyUsage where "KeyUsageKeyEncipherment = push_bit 2 1"
definition KeyUsageDataEncipherment :: KeyUsage where "KeyUsageDataEncipherment = push_bit 3 1"
definition KeyUsageKeyAgreement :: KeyUsage where "KeyUsageKeyAgreement = push_bit 4 1"
definition KeyUsageCertSign :: KeyUsage where "KeyUsageCertSign = push_bit 5 1"
definition KeyUsageCRLSign :: KeyUsage where "KeyUsageCRLSign = push_bit 6 1"
definition KeyUsageEncipherOnly :: KeyUsage where "KeyUsageEncipherOnly = push_bit 7 1"
definition KeyUsageDecipherOnly :: KeyUsage where "KeyUsageDecipherOnly = push_bit 8 1"

definition allKeyUsages :: "KeyUsage list" where
  "allKeyUsages = [KeyUsageDigitalSignature, KeyUsageContentCommitment,
     KeyUsageKeyEncipherment, KeyUsageDataEncipherment, KeyUsageKeyAgreement,
     KeyUsageCertSign, KeyUsageCRLSign, KeyUsageEncipherOnly, KeyUsageDecipherOnly]"

text \<open>The usages a bit set asserts: the constants whose bit is set in it.\<close>

definition hasUsage :: "KeyUsage \<Rightarrow> KeyUsage \<Rightarrow> bool" where
  "hasUsage ku b = (and ku b \<noteq> 0)"

definition usagesOf :: "KeyUsage \<Rightarrow> KeyUsage list" where
  "usagesOf ku = filter (hasUsage ku) allKeyUsages"

datatype ExtKeyUsage =
    ExtKeyUsageAny
  | ExtKeyUsageServerAuth
  | ExtKeyUsageClientAuth
  | ExtKeyUsageCodeSigning
  | ExtKeyUsageEmailProtection
  | ExtKeyUsageIPSECEndSystem
  | ExtKeyUsageIPSECTunnel
  | ExtKeyUsageIPSECUser
  | ExtKeyUsageTimeStamping
  | ExtKeyUsageOCSPSigning
  | ExtKeyUsageMicrosoftServerGatedCrypto
  | ExtKeyUsageNetscapeServerGatedCrypto
  | ExtKeyUsageMicrosoftCommercialCodeSigning
  | ExtKeyUsageMicrosoftKernelCodeSigning

text \<open>\<^verbatim>\<open>pkix.Extension\<close>: the identifier, the critical flag and the raw value.\<close>

type_synonym Extension = "ObjectIdentifier \<times> bool \<times> nat list"

text \<open>
  The fields of \<^verbatim>\<open>x509.Certificate\<close> that the package writes or reads. A nil slice
  and an empty one are both \<open>[]\<close>; a nil public key is \<open>None\<close>.
\<close>

record Certificate =
  IsCA :: bool
  NotBefore :: Time
  NotAfter :: Time
  PolicyIdentifiers :: "ObjectIdentifier list"
  KeyUsage :: KeyUsage
  ExtKeyUsage :: "ExtKeyUsage list"
  UnknownExtKeyUsage :: "ObjectIdentifier list"
  BasicConstraintsValid :: bool
  MaxPathLen :: int
  MaxPathLenZero :: bool
  Issuer :: Name
  Subject :: Name
  PublicKey :: "key option"
  ExtraExtensions :: "Extension list"
  DNSNames :: "string list"
  EmailAddresses :: "string list"
  IPAddresses :: "nat list list"
  URIs :: "string list"

text \<open>The fields of \<^verbatim>\<open>x509.CertificateRequest\<close> that the package reads.\<close>

record CertificateRequest =
  csrSubject :: Name
  csrPublicKey :: "key option"
  csrExtensions :: "Extension list"
  csrDNSNames :: "string list"
  csrEmailAddresses :: "string list"
  csrIPAddresses :: "nat list list"
  csrURIs :: "string list"

subsection \<open>The store of certificates\<close>

text \<open>
  A certificate lives at an address of the store. \<^verbatim>\<open>&x509.Certificate{...}\<close> allocates
  at the first unused address, \<open>fresh\<close>. A pointer is an optional address, \<open>None\<close> being
  nil; reading through nil panics.
\<close>

type_synonym addr = nat

record store =
  mem :: "addr \<Rightarrow> Certificate"
  fresh :: addr

datatype error =
    MissingPublicKey
  | OptionRejected string
  | KeyGenerationFailed
  | InvalidTemplate
  | NilPointerDereference

definition alloc :: "store \<Rightarrow> Certificate \<Rightarrow> addr \<times> store" where
  "alloc h c = (fresh h, h\<lparr>mem := (mem h)(fresh h := c), fresh := Suc (fresh h)\<rparr>)"

definition load :: "store \<Rightarrow> addr option \<Rightarrow> error + Certificate" where
  "load h p = (case p of
       None \<Rightarrow> Inl NilPointerDereference
     | Some a \<Rightarrow> Inr (mem h a))"

text \<open>Writing the fields of the certificate at an address.\<close>

definition modify :: "addr \<Rightarrow> (Certificate \<Rightarrow> Certificate) \<Rightarrow> store \<Rightarrow> store" where
  "modify a f h = h\<lparr>mem := (mem h)(a := f (mem h a))\<rparr>"

subsection \<open>Validity constants\<close>

definition DefaultRootCertValidity :: Duration where
  "DefaultRootCertValidity = Hour * 24 * 365 * 10"

definition DefaultIntermediateCertValidity :: Duration where
  "DefaultIntermediateCertValidity = Hour * 24 * 365 * 10"

subsection \<open>Default templates\<close>

text \<open>
  Each template reads the clock once (\<^verbatim>\<open>time.Now()\<close>); the reading is the argument
  \<open>notBefore\<close>. The object identifiers are those of the source.
\<close>

definition oidSmartCardLogon :: ObjectIdentifier where
  "oidSmartCardLogon = [1, 3, 6, 1, 4, 1, 311, 20, 2, 2]"

definition oidDocumentSigning :: ObjectIdentifier where
  "oidDocumentSigning = [1, 3, 6, 1, 4, 1, 311, 10, 3, 12]"

definition oidDocumentEncryption :: ObjectIdentifier where
  "oidDocumentEncryption = [1, 3, 6, 1, 4, 1, 311, 80, 1]"

definition oidAllIssuancePolicies :: ObjectIdentifier where
  "oidAllIssuancePolicies = [2, 5, 29, 32, 0]"

definition oidExtendedValidation :: ObjectIdentifier where
  "oidExtendedValidation = [2, 23, 140, 1, 1]"

definition oidEVCodeSigning :: ObjectIdentifier where
  "oidEVCodeSigning = [2, 23, 140, 1, 3]"

text \<open>rootProfile.go, \<^verbatim>\<open>defaultRootTemplate\<close>.\<close>

definition defaultRootTemplate :: "Time \<Rightarrow> string \<Rightarrow> Certificate" where
  "defaultRootTemplate notBefore cn = \<lparr>
     IsCA = True,
     NotBefore = notBefore,
     NotAfter = Add notBefore DefaultRootCertValidity,
     PolicyIdentifiers = [],
     KeyUsage = or (or (or KeyUsageDigitalSignature KeyUsageKeyEncipherment) KeyUsageCertSign)
       KeyUsageCRLSign,
     ExtKeyUsage = [ExtKeyUsageAny, ExtKeyUsageServerAuth, ExtKeyUsageClientAuth,
       ExtKeyUsageCodeSigning, ExtKeyUsageEmailProtection, ExtKeyUsageTimeStamping],
     UnknownExtKeyUsage = [oidSmartCardLogon, oidDocumentSigning, oidDocumentEncryption],
     BasicConstraintsValid = True,
     MaxPathLen = 1,
     MaxPathLenZero = False,
     Issuer = NameCN cn,
     Subject = NameCN cn,
     PublicKey = None,
     ExtraExtensions = [],
     DNSNames = [],
     EmailAddresses = [],
     IPAddresses = [],
     URIs = []\<rparr>"

text \<open>
  The intermediate profile's file is present in three revisions. The first one
  (part_000, lines 30 to 63) carries policy identifiers and is the one the entry point
  below uses.
\<close>

definition defaultIntermediateTemplate :: "Time \<Rightarrow> string \<Rightarrow> Certificate" where
  "defaultIntermediateTemplate notBefore name = \<lparr>
     IsCA = True,
     NotBefore = notBefore,
     NotAfter = Add notBefore DefaultIntermediateCertValidity,
     PolicyIdentifiers = [oidAllIssuancePolicies, oidExtendedValidation, oidEVCodeSigning],
     KeyUsage = or (or (or KeyUsageDigitalSignature KeyUsageKeyEncipherment) KeyUsageCertSign)
       KeyUsageCRLSign,
     ExtKeyUsage = [ExtKeyUsageServerAuth, ExtKeyUsageClientAuth,
       ExtKeyUsageCodeSigning, ExtKeyUsageEmailProtection, ExtKeyUsageTimeStamping],
     UnknownExtKeyUsage = [oidSmartCardLogon, oidDocumentSigning, oidDocumentEncryption],
     BasicConstraintsValid = True,
     MaxPathLen = 0,
     MaxPathLenZero = True,
     Issuer = NameCN name,
     Subject = NameCN name,
     PublicKey = None,
     ExtraExtensions = [],
     DNSNames = [],
     EmailAddresses = [],
     IPAddresses = [],
     URIs = []\<rparr>"

text \<open>The second revision (part_000, lines 93 to 116 of the file as numbered there).\<close>

definition defaultIntermediateTemplate_rev2 :: "Time \<Rightarrow> string \<Rightarrow> Certificate" where
  "defaultIntermediateTemplate_rev2 notBefore name = \<lparr>
     IsCA = True,
     NotBefore = notBefore,
     NotAfter = Add notBefore DefaultIntermediateCertValidity,
     PolicyIdentifiers = [oidAllIssuancePolicies],
     KeyUsage = or (or KeyUsageDigitalSignature KeyUsageCertSign) KeyUsageCRLSign,
     ExtKeyUsage = [ExtKeyUsageServerAuth, ExtKeyUsageClientAuth,
       ExtKeyUsageCodeSigning, ExtKeyUsageEmailProtection, ExtKeyUsageTimeStamping],
     UnknownExtKeyUsage = [],
     BasicConstraintsValid = True,
     MaxPathLen = 0,
     MaxPathLenZero = True,
     Issuer = NameCN name,
     Subject = NameCN name,
     PublicKey = None,
     ExtraExtensions = [],
     DNSNames = [],
     EmailAddresses = [],
     IPAddresses = [],
     URIs = []\<rparr>"

text \<open>The third revision (the end of part_000, and part_001, lines 30 to 56).\<close>

definition defaultIntermediateTemplate_rev3 :: "Time \<Rightarrow> string \<Rightarrow> Certificate" where
  "defaultIntermediateTemplate_rev3 notBefore name = \<lparr>
     IsCA = True,
     NotBefore = notBefore,
     NotAfter = Add notBefore DefaultIntermediateCertValidity,
     PolicyIdentifiers = [],
     KeyUsage = or (or (or KeyUsageDigitalSignature KeyUsageKeyEncipherment) KeyUsageCertSign)
       KeyUsageCRLSign,
     ExtKeyUsage = [ExtKeyUsageAny, ExtKeyUsageServerAuth, ExtKeyUsageClientAuth,
       ExtKeyUsageCodeSigning, ExtKeyUsageEmailProtection, ExtKeyUsageTimeStamping],
     UnknownExtKeyUsage = [oidSmartCardLogon, oidDocumentSigning, oidDocumentEncryption],
     BasicConstraintsValid = True,
     MaxPathLen = 0,
     MaxPathLenZero = True,
     Issuer = NameCN name,
     Subject = NameCN name,
     PublicKey = None,
     ExtraExtensions = [],
     DNSNames = [],
     EmailAddresses = [],
     IPAddresses = [],
     URIs = []\<rparr>"

text \<open>
  part_002, \<^verbatim>\<open>defaultLeafTemplate\<close>. The constant \<^verbatim>\<open>DefaultCertValidity\<close> is declared
  in a file that is not at hand; it is the argument \<open>dcv\<close>.
\<close>

definition defaultLeafTemplate :: "Time \<Rightarrow> Duration \<Rightarrow> Name \<Rightarrow> Name \<Rightarrow> Certificate" where
  "defaultLeafTemplate notBefore dcv sub iss = \<lparr>
     IsCA = False,
     NotBefore = notBefore,
     NotAfter = Add notBefore dcv,
     PolicyIdentifiers = [oidAllIssuancePolicies, oidExtendedValidation, oidEVCodeSigning],
     KeyUsage = or KeyUsageDigitalSignature KeyUsageKeyEncipherment,
     ExtKeyUsage = [ExtKeyUsageServerAuth, ExtKeyUsageClientAuth,
       ExtKeyUsageCodeSigning, ExtKeyUsageEmailProtection, ExtKeyUsageTimeStamping],
     UnknownExtKeyUsage = [oidSmartCardLogon, oidDocumentSigning, oidDocumentEncryption],
     BasicConstraintsValid = False,
     MaxPathLen = 0,
     MaxPathLenZero = False,
     Issuer = iss,
     Subject = sub,
     PublicKey = None,
     ExtraExtensions = [],
     DNSNames = [],
     EmailAddresses = [],
     IPAddresses = [],
     URIs = []\<rparr>"

subsection \<open>Profiles and options\<close>

datatype Role = Root | Intermediate | Leaf

text \<open>
  Modelled from the spec: the type \<^verbatim>\<open>base\<close> that the three roles embed, the interface
  \<^verbatim>\<open>Profile\<close> and the type \<^verbatim>\<open>WithOption\<close> are declared in a file that is not at hand.
  The specification's profile has a role that is immutable after construction, a subject
  draft, an issuer draft (for a root and a self-signed leaf the same object as the subject
  draft), an issuer key and a subject key. A \<open>Profile\<close> holds what is fixed at construction:
  the role and the two addresses. A \<open>pstate\<close> holds what construction may still write: the
  certificates in the store (the drafts are mutable records) and the three key slots.
\<close>

record Profile =
  role :: Role
  subject :: addr
  issuer :: addr

record pstate =
  certs :: store
  subPub :: "key option"
  subPriv :: "key option"
  issPriv :: "key option"

text \<open>
  Modelled from the spec: an option is a function from the profile to success or failure,
  applied in place (section 4.2). It reads the profile, may write the drafts and the keys,
  and fails with a message.
\<close>

type_synonym WithOption = "Profile \<Rightarrow> pstate \<Rightarrow> string + pstate"

text \<open>
  What construction takes from outside: the clock reading, the constant
  \<^verbatim>\<open>DefaultCertValidity\<close> (declared in a file that is not at hand) and the answer of the
  key-generation service, \<open>None\<close> when it fails, else the public and the private key.
\<close>

record env =
  now :: Time
  DefaultCertValidity :: Duration
  generate :: "(key \<times> key) option"

text \<open>
  Modelled from the spec: the accessors \<^verbatim>\<open>SubjectPrivateKey\<close> and
  \<^verbatim>\<open>SetIssuerPrivateKey\<close> of the absent \<^verbatim>\<open>base\<close> (the specification's \<^verbatim>\<open>subjectKey()\<close>
  and \<^verbatim>\<open>setIssuerKey\<close>).
\<close>

definition SubjectPrivateKey :: "pstate \<Rightarrow> key option" where
  "SubjectPrivateKey st = subPriv st"

definition SetIssuerPrivateKey :: "key option \<Rightarrow> pstate \<Rightarrow> pstate" where
  "SetIssuerPrivateKey k st = st\<lparr>issPriv := k\<rparr>"

text \<open>The drafts of a profile, read through its addresses.\<close>

definition subjectDraft :: "Profile \<Rightarrow> pstate \<Rightarrow> Certificate" where
  "subjectDraft p st = mem (certs st) (subject p)"

definition issuerDraft :: "Profile \<Rightarrow> pstate \<Rightarrow> Certificate" where
  "issuerDraft p st = mem (certs st) (issuer p)"

text \<open>
  Modelled from the spec: the option \<^verbatim>\<open>WithPublicKey\<close>, which substitutes the subject's
  public key (section 4.2); its argument may be nil.
\<close>

definition WithPublicKey :: "key option \<Rightarrow> WithOption" where
  "WithPublicKey pub = (\<lambda>p st. Inr (st\<lparr>subPub := pub\<rparr>))"

text \<open>
  Modelled from the spec: an option that overrides an identity field, the common name of
  the subject draft's subject (sections 4.2 and 8).
\<close>

definition WithCommonName :: "string \<Rightarrow> WithOption" where
  "WithCommonName cn = (\<lambda>p st. Inr (st\<lparr>certs :=
     modify (subject p) (\<lambda>c. c\<lparr>Subject := (Subject c)\<lparr>CommonName := cn\<rparr>\<rparr>) (certs st)\<rparr>))"

text \<open>
  Modelled from the spec: the option pipeline (section 4.2). The options run in the order
  of the list, each on the state its predecessor left; the first failure ends the run and
  is the pipeline's error, \<^verbatim>\<open>OptionRejected\<close> with the option's message.
\<close>

fun applyOptions :: "Profile \<Rightarrow> WithOption list \<Rightarrow> pstate \<Rightarrow> error + pstate" where
  "applyOptions p [] st = Inr st"
| "applyOptions p (opt # opts) st = (case opt p st of
       Inl msg \<Rightarrow> Inl (OptionRejected msg)
     | Inr st' \<Rightarrow> applyOptions p opts st')"

text \<open>
  Modelled from the spec: the generic construction routine \<^verbatim>\<open>newProfile\<close>, declared in a
  file that is not at hand. It records the role, the two drafts and the issuer key, runs
  the option pipeline and, when no public key is available after that, asks the
  key-generation service for a pair; a failure of the service is the construction's error
  (sections 4.3, 6 and 7). The specification's drafts are always present: a nil draft is
  answered with \<^verbatim>\<open>InvalidTemplate\<close>.
\<close>

definition newProfile ::
  "env \<Rightarrow> Role \<Rightarrow> addr option \<Rightarrow> addr option \<Rightarrow> key option \<Rightarrow> WithOption list \<Rightarrow> store
     \<Rightarrow> error + (Profile \<times> pstate)" where
  "newProfile e r sub iss issPrivKey withOps h = (case sub of
       None \<Rightarrow> Inl InvalidTemplate
     | Some s \<Rightarrow> (case iss of
         None \<Rightarrow> Inl InvalidTemplate
       | Some i \<Rightarrow>
           (let p = \<lparr>role = r, subject = s, issuer = i\<rparr>;
                st = \<lparr>certs = h, subPub = None, subPriv = None, issPriv = issPrivKey\<rparr>
            in case applyOptions p withOps st of
                 Inl err \<Rightarrow> Inl err
               | Inr st' \<Rightarrow> (case subPub st' of
                     Some k \<Rightarrow> Inr (p, st')
                   | None \<Rightarrow> (case generate e of
                         None \<Rightarrow> Inl KeyGenerationFailed
                       | Some (pub, priv) \<Rightarrow>
                           Inr (p, st'\<lparr>subPub := Some pub, subPriv := Some priv\<rparr>))))))"

text \<open>
  Modelled from the spec: the \<^verbatim>\<open>DefaultDuration\<close> method of a leaf is not in part_002;
  the specification gives \<^verbatim>\<open>DefaultCertValidity\<close>. The methods of a root and of an
  intermediate are those of rootProfile.go and part_000.
\<close>

definition DefaultDuration :: "env \<Rightarrow> Profile \<Rightarrow> Duration" where
  "DefaultDuration e p = (case role p of
       Root \<Rightarrow> DefaultRootCertValidity
     | Intermediate \<Rightarrow> DefaultIntermediateCertValidity
     | Leaf \<Rightarrow> DefaultCertValidity e)"

subsection \<open>Entry points\<close>

text \<open>rootProfile.go. \<^verbatim>\<open>errors.WithStack\<close> adds a stack trace to the same error.\<close>

definition NewRootProfileWithTemplate ::
  "env \<Rightarrow> addr option \<Rightarrow> WithOption list \<Rightarrow> store \<Rightarrow> error + (Profile \<times> pstate)" where
  "NewRootProfileWithTemplate e crt withOps h = (case newProfile e Root crt crt None withOps h of
       Inl err \<Rightarrow> Inl err
     | Inr (p, st) \<Rightarrow> Inr (p, SetIssuerPrivateKey (SubjectPrivateKey st) st))"

definition NewRootProfile ::
  "env \<Rightarrow> string \<Rightarrow> WithOption list \<Rightarrow> store \<Rightarrow> error + (Profile \<times> pstate)" where
  "NewRootProfile e name withOps h =
     (let (crt, h') = alloc h (defaultRootTemplate (now e) name)
      in NewRootProfileWithTemplate e (Some crt) withOps h')"

text \<open>part_000.\<close>

definition NewIntermediateProfile ::
  "env \<Rightarrow> string \<Rightarrow> addr option \<Rightarrow> key option \<Rightarrow> WithOption list \<Rightarrow> store
     \<Rightarrow> error + (Profile \<times> pstate)" where
  "NewIntermediateProfile e name iss issPrivKey withOps h =
     (let (sub, h') = alloc h (defaultIntermediateTemplate (now e) name)
      in newProfile e Intermediate (Some sub) iss issPrivKey withOps h')"

text \<open>
  part_002. The forced option is built from the template's public key as it is at the
  call, and appended to the caller's options.
\<close>

definition NewLeafProfileWithTemplate ::
  "env \<Rightarrow> addr option \<Rightarrow> addr option \<Rightarrow> key option \<Rightarrow> WithOption list \<Rightarrow> store
     \<Rightarrow> error + (Profile \<times> pstate)" where
  "NewLeafProfileWithTemplate e sub iss issPrivKey withOps h = (case load h sub of
       Inl err \<Rightarrow> Inl err
     | Inr c \<Rightarrow> newProfile e Leaf sub iss issPrivKey (withOps @ [WithPublicKey (PublicKey c)]) h)"

definition NewLeafProfile ::
  "env \<Rightarrow> string \<Rightarrow> addr option \<Rightarrow> key option \<Rightarrow> WithOption list \<Rightarrow> store
     \<Rightarrow> error + (Profile \<times> pstate)" where
  "NewLeafProfile e cn iss issPrivKey withOps h = (case load h iss of
       Inl err \<Rightarrow> Inl err
     | Inr ic \<Rightarrow>
         (let (sub, h') = alloc h
            (defaultLeafTemplate (now e) (DefaultCertValidity e) (NameCN cn) (Subject ic))
          in newProfile e Leaf (Some sub) iss issPrivKey withOps h'))"

definition NewSelfSignedLeafProfile ::
  "env \<Rightarrow> string \<Rightarrow> WithOption list \<Rightarrow> store \<Rightarrow> error + (Profile \<times> pstate)" where
  "NewSelfSignedLeafProfile e cn withOps h =
     (let (sub, h') = alloc h
        (defaultLeafTemplate (now e) (DefaultCertValidity e) (NameCN cn) (NameCN cn))
      in case newProfile e Leaf (Some sub) (Some sub) None withOps h' of
           Inl err \<Rightarrow> Inl err
         | Inr (p, st) \<Rightarrow> Inr (p, SetIssuerPrivateKey (SubjectPrivateKey st) st))"

text \<open>
  The error of the first check is \<^verbatim>\<open>errors.Errorf("CSR must have PublicKey")\<close>, the
  specification's \<^verbatim>\<open>MissingPublicKey\<close>. A nil request panics at that check, a nil issuer
  at \<^verbatim>\<open>iss.Subject\<close>.
\<close>

definition NewLeafProfileWithCSR ::
  "env \<Rightarrow> CertificateRequest option \<Rightarrow> addr option \<Rightarrow> key option \<Rightarrow> WithOption list \<Rightarrow> store
     \<Rightarrow> error + (Profile \<times> pstate)" where
  "NewLeafProfileWithCSR e csr iss issPrivKey withOps h = (case csr of
       None \<Rightarrow> Inl NilPointerDereference
     | Some r \<Rightarrow>
         if csrPublicKey r = None then Inl MissingPublicKey
         else (case load h iss of
             Inl err \<Rightarrow> Inl err
           | Inr ic \<Rightarrow>
               (let (sub, h1) = alloc h
                  (defaultLeafTemplate (now e) (DefaultCertValidity e) (csrSubject r) (Subject ic));
                    h2 = modify sub (\<lambda>c. c\<lparr>
                      ExtraExtensions := csrExtensions r,
                      DNSNames := csrDNSNames r,
                      EmailAddresses := csrEmailAddresses r,
                      IPAddresses := csrIPAddresses r,
                      URIs := csrURIs r\<rparr>) h1
                in newProfile e Leaf (Some sub) iss issPrivKey
                     (withOps @ [WithPublicKey (csrPublicKey r)]) h2)))"

text \<open>
  The seven entry points (the table of section 4.3) under one name, for the properties
  that hold of all of them.
\<close>

datatype EntryPoint =
    RootFromName string
  | RootFromTemplate "addr option"
  | IntermediateFromName string "addr option" "key option"
  | LeafFromName string "addr option" "key option"
  | LeafFromTemplate "addr option" "addr option" "key option"
  | LeafSelfSigned string
  | LeafFromRequest "CertificateRequest option" "addr option" "key option"

fun construct ::
  "env \<Rightarrow> EntryPoint \<Rightarrow> WithOption list \<Rightarrow> store \<Rightarrow> error + (Profile \<times> pstate)" where
  "construct e (RootFromName name) withOps h = NewRootProfile e name withOps h"
| "construct e (RootFromTemplate crt) withOps h = NewRootProfileWithTemplate e crt withOps h"
| "construct e (IntermediateFromName name iss k) withOps h =
     NewIntermediateProfile e name iss k withOps h"
| "construct e (LeafFromName cn iss k) withOps h = NewLeafProfile e cn iss k withOps h"
| "construct e (LeafFromTemplate sub iss k) withOps h =
     NewLeafProfileWithTemplate e sub iss k withOps h"
| "construct e (LeafSelfSigned cn) withOps h = NewSelfSignedLeafProfile e cn withOps h"
| "construct e (LeafFromRequest csr iss k) withOps h =
     NewLeafProfileWithCSR e csr iss k withOps h"

subsection \<open>What an option leaves alone, and what it writes\<close>

text \<open>
  An option keeps an observation \<open>f\<close> of the subject draft when every successful run of
  it leaves \<open>f\<close> of the draft as it found it; it writes \<open>v\<close> to \<open>f\<close> when after every
  successful run \<open>f\<close> of the draft is \<open>v\<close>.
\<close>

definition keeps :: "(Certificate \<Rightarrow> 'a) \<Rightarrow> WithOption \<Rightarrow> bool" where
  "keeps f opt = (\<forall>p st st'. opt p st = Inr st' \<longrightarrow>
     f (subjectDraft p st') = f (subjectDraft p st))"


definition validity :: "Certificate \<Rightarrow> Duration" where
  "validity c = Sub (NotAfter c) (NotBefore c)"

definition subjectCommonName :: "Certificate \<Rightarrow> string" where
  "subjectCommonName c = CommonName (Subject c)"

definition basicConstraints :: "Certificate \<Rightarrow> bool \<times> bool \<times> int \<times> bool" where
  "basicConstraints c = (IsCA c, BasicConstraintsValid c, MaxPathLen c, MaxPathLenZero c)"

definition requestFields ::
  "Certificate \<Rightarrow> Name \<times> string list \<times> string list \<times> nat list list \<times> string list \<times> Extension list" where
  "requestFields c =
     (Subject c, DNSNames c, EmailAddresses c, IPAddresses c, URIs c, ExtraExtensions c)"

text \<open>The subject draft and the profile that a construction returned, if it returned one.\<close>

definition draftOf :: "error + (Profile \<times> pstate) \<Rightarrow> Certificate option" where
  "draftOf r = (case r of Inl err \<Rightarrow> None | Inr (p, st) \<Rightarrow> Some (subjectDraft p st))"

definition profileOf :: "error + (Profile \<times> pstate) \<Rightarrow> Profile option" where
  "profileOf r = (case r of Inl err \<Rightarrow> None | Inr (p, st) \<Rightarrow> Some p)"

text \<open>
  The role an entry point constructs (the type it hands to \<^verbatim>\<open>newProfile\<close>), and the
  entry points that derive the subject draft from the role's default template; the other
  two take the caller's certificate as the draft.
\<close>

fun roleOf :: "EntryPoint \<Rightarrow> Role" where
  "roleOf (RootFromName name) = Root"
| "roleOf (RootFromTemplate crt) = Root"
| "roleOf (IntermediateFromName name iss k) = Intermediate"
| "roleOf (LeafFromName cn iss k) = Leaf"
| "roleOf (LeafFromTemplate sub iss k) = Leaf"
| "roleOf (LeafSelfSigned cn) = Leaf"
| "roleOf (LeafFromRequest csr iss k) = Leaf"

definition usesDefaultTemplate :: "EntryPoint \<Rightarrow> bool" where
  "usesDefaultTemplate ep = (case ep of
       RootFromTemplate crt \<Rightarrow> False
     | LeafFromTemplate sub iss k \<Rightarrow> False
     | _ \<Rightarrow> True)"

subsection \<open>Example inputs\<close>

text \<open>
  A store whose certificate at address 0 is an issuing root, a clock reading, a one-day
  \<^verbatim>\<open>DefaultCertValidity\<close> and a key-generation service that answers with the pair (1, 2).
\<close>

definition issuerCert0 :: Certificate where
  "issuerCert0 = defaultRootTemplate 0 ''issuer-ca''"

definition store0 :: store where
  "store0 = \<lparr>mem = (\<lambda>a. issuerCert0), fresh = 1\<rparr>"

definition env0 :: env where
  "env0 = \<lparr>now = 1000, DefaultCertValidity = 24 * Hour, generate = Some (1, 2)\<rparr>"


definition setKeys :: WithOption where
  "setKeys = (\<lambda>p st. Inr (st\<lparr>subPub := Some 8, subPriv := Some 9, issPriv := Some 7\<rparr>))"

text \<open>A request for the subject \<^verbatim>\<open>svc\<close> with two DNS names and one extension.\<close>

definition csr0 :: CertificateRequest where
  "csr0 = \<lparr>csrSubject = NameCN ''svc'', csrPublicKey = Some 9,
     csrExtensions = [([2, 5, 29, 17], False, [48, 0])],
     csrDNSNames = [''a.example'', ''b.example''], csrEmailAddresses = [],
     csrIPAddresses = [], csrURIs = []\<rparr>"

text \<open>A root certificate that is valid for one year, and a store that holds it.\<close>

definition shortLivedRoot :: Certificate where
  "shortLivedRoot = (defaultRootTemplate 0 ''root-ca'')\<lparr>NotAfter := Add 0 (Hour * 24 * 365)\<rparr>"

definition store1 :: store where
  "store1 = \<lparr>mem = (\<lambda>a. shortLivedRoot), fresh = 1\<rparr>"



section \<open>Properties\<close>

subsection \<open>Auxiliary facts\<close>

lemmas ku_defs = KeyUsageDigitalSignature_def KeyUsageContentCommitment_def
  KeyUsageKeyEncipherment_def KeyUsageDataEncipherment_def KeyUsageKeyAgreement_def
  KeyUsageCertSign_def KeyUsageCRLSign_def KeyUsageEncipherOnly_def KeyUsageDecipherOnly_def

lemmas duration_defs = Hour_def Minute_def Second_def Millisecond_def Microsecond_def
  Nanosecond_def

lemmas entry_defs = NewRootProfile_def NewRootProfileWithTemplate_def NewIntermediateProfile_def
  NewLeafProfile_def NewLeafProfileWithTemplate_def NewSelfSignedLeafProfile_def
  NewLeafProfileWithCSR_def newProfile_def alloc_def load_def modify_def
  SetIssuerPrivateKey_def SubjectPrivateKey_def WithPublicKey_def WithCommonName_def


lemma applyOptions_keeps:
  "\<forall>opt\<in>set ops. keeps f opt \<Longrightarrow> applyOptions p ops st = Inr st' \<Longrightarrow> f (subjectDraft p st') = f (subjectDraft p st)"
proof (induction ops arbitrary: st)
  case Nil then show ?case by simp
next
  case (Cons a ops)
  then show ?case by (auto split: sum.splits simp: keeps_def)
qed


lemma newProfile_Inr:
  assumes "newProfile e r sub iss k ops h = Inr (p, st)"
  shows "\<exists>s i st1. sub = Some s \<and> iss = Some i \<and> p = \<lparr>role = r, subject = s, issuer = i\<rparr>
    \<and> applyOptions p ops \<lparr>certs = h, subPub = None, subPriv = None, issPriv = k\<rparr> = Inr st1
    \<and> certs st = certs st1 \<and> issPriv st = issPriv st1
    \<and> (case subPub st1 of Some pk \<Rightarrow> st = st1
        | None \<Rightarrow> (\<exists>pub priv. generate e = Some (pub, priv)
            \<and> st = st1\<lparr>subPub := Some pub, subPriv := Some priv\<rparr>))"
  using assms unfolding newProfile_def
  by (auto simp: Let_def split: option.splits sum.splits prod.splits)

lemma newProfile_keeps:
  assumes "newProfile e r (Some s) iss k ops h = Inr (p, st)" "\<forall>opt\<in>set ops. keeps f opt"
  shows "f (subjectDraft p st) = f (mem h s)"
proof -
  from newProfile_Inr[OF assms(1)] obtain i st1 where
    p: "p = \<lparr>role = r, subject = s, issuer = i\<rparr>"
    and run: "applyOptions p ops \<lparr>certs = h, subPub = None, subPriv = None, issPriv = k\<rparr> = Inr st1"
    and c: "certs st = certs st1" by auto
  from applyOptions_keeps[OF assms(2) run] c p show ?thesis
    by (simp add: subjectDraft_def)
qed

lemma keeps_WithPublicKey: "keeps f (WithPublicKey k)"
  by (auto simp: keeps_def WithPublicKey_def subjectDraft_def)


lemma NewRootProfileWithTemplate_Inr:
  assumes "NewRootProfileWithTemplate e crt ops h = Inr (p, st)"
  shows "\<exists>st0. newProfile e Root crt crt None ops h = Inr (p, st0)
    \<and> st = SetIssuerPrivateKey (SubjectPrivateKey st0) st0"
  using assms by (auto simp: NewRootProfileWithTemplate_def split: sum.splits)

lemma NewRootProfile_Inr:
  assumes "NewRootProfile e n ops h = Inr (p, st)"
  shows "\<exists>st0. newProfile e Root (Some (fresh h)) (Some (fresh h)) None ops
        (snd (alloc h (defaultRootTemplate (now e) n))) = Inr (p, st0)
    \<and> st = SetIssuerPrivateKey (SubjectPrivateKey st0) st0"
  using assms
  by (auto simp: NewRootProfile_def NewRootProfileWithTemplate_def alloc_def split: sum.splits)

lemma NewIntermediateProfile_eq:
  "NewIntermediateProfile e n iss k ops h = newProfile e Intermediate (Some (fresh h)) iss k ops
     (snd (alloc h (defaultIntermediateTemplate (now e) n)))"
  by (simp add: NewIntermediateProfile_def alloc_def)

lemma NewLeafProfile_Inr:
  assumes "NewLeafProfile e cn iss k ops h = Inr (p, st)"
  shows "\<exists>ic. load h iss = Inr ic \<and> newProfile e Leaf (Some (fresh h)) iss k ops
     (snd (alloc h (defaultLeafTemplate (now e) (DefaultCertValidity e) (NameCN cn) (Subject ic))))
     = Inr (p, st)"
  using assms by (auto simp: NewLeafProfile_def alloc_def split: sum.splits)

lemma NewLeafProfileWithTemplate_Inr:
  assumes "NewLeafProfileWithTemplate e sub iss k ops h = Inr (p, st)"
  shows "\<exists>s. sub = Some s \<and> newProfile e Leaf sub iss k
     (ops @ [WithPublicKey (PublicKey (mem h s))]) h = Inr (p, st)"
  using assms
  by (auto simp: NewLeafProfileWithTemplate_def load_def split: sum.splits option.splits)

lemma NewSelfSignedLeafProfile_Inr:
  assumes "NewSelfSignedLeafProfile e cn ops h = Inr (p, st)"
  shows "\<exists>st0. newProfile e Leaf (Some (fresh h)) (Some (fresh h)) None ops
        (snd (alloc h (defaultLeafTemplate (now e) (DefaultCertValidity e) (NameCN cn) (NameCN cn))))
        = Inr (p, st0)
    \<and> st = SetIssuerPrivateKey (SubjectPrivateKey st0) st0"
  using assms
  by (auto simp: NewSelfSignedLeafProfile_def alloc_def split: sum.splits)

lemma NewLeafProfileWithCSR_Inr:
  assumes "NewLeafProfileWithCSR e csr iss k ops h = Inr (p, st)"
  shows "\<exists>r ic. csr = Some r \<and> csrPublicKey r \<noteq> None \<and> load h iss = Inr ic
    \<and> newProfile e Leaf (Some (fresh h)) iss k (ops @ [WithPublicKey (csrPublicKey r)])
        (modify (fresh h) (\<lambda>c. c\<lparr>
            ExtraExtensions := csrExtensions r,
            DNSNames := csrDNSNames r,
            EmailAddresses := csrEmailAddresses r,
            IPAddresses := csrIPAddresses r,
            URIs := csrURIs r\<rparr>)
          (snd (alloc h
            (defaultLeafTemplate (now e) (DefaultCertValidity e) (csrSubject r) (Subject ic)))))
        = Inr (p, st)"
  using assms
  by (auto simp: NewLeafProfileWithCSR_def alloc_def split: sum.splits option.splits if_splits)






lemma selfSigned_after_newProfile:
  assumes "newProfile e r sub sub None ops h = Inr (p, st0)"
    and "st = SetIssuerPrivateKey (SubjectPrivateKey st0) st0"
  shows "issuer p = subject p \<and> sub = Some (subject p) \<and> issuerDraft p st = subjectDraft p st
    \<and> issPriv st = subPriv st"
  using newProfile_Inr[OF assms(1)] assms(2)
  by (auto simp: SetIssuerPrivateKey_def SubjectPrivateKey_def issuerDraft_def subjectDraft_def)

lemma NewRootProfile_no_options:
  "generate e = Some (pub, priv) \<Longrightarrow> NewRootProfile e n [] h =
     Inr (\<lparr>role = Root, subject = fresh h, issuer = fresh h\<rparr>,
          \<lparr>certs = snd (alloc h (defaultRootTemplate (now e) n)), subPub = Some pub,
           subPriv = Some priv, issPriv = Some priv\<rparr>)"
  by (simp add: NewRootProfile_def NewRootProfileWithTemplate_def newProfile_def alloc_def
      SetIssuerPrivateKey_def SubjectPrivateKey_def)

lemma newProfile_role:
  assumes "newProfile e r sub iss k ops h = Inr (p, st)"
  shows "role p = r"
  using newProfile_Inr[OF assms] by auto

lemma keeps_append_forced:
  "\<forall>opt\<in>set ops. keeps f opt \<Longrightarrow> \<forall>opt\<in>set (ops @ [WithPublicKey pk]). keeps f opt"
  by (simp add: keeps_WithPublicKey)

lemma validity_self_sign: "subjectDraft p (SetIssuerPrivateKey k st) = subjectDraft p st"
  by (simp add: subjectDraft_def SetIssuerPrivateKey_def)

lemma intermediate_template_rev2:
  "defaultIntermediateTemplate_rev2 t n = (defaultRootTemplate t n)\<lparr>
        PolicyIdentifiers := [oidAllIssuancePolicies],
        KeyUsage := or (or KeyUsageDigitalSignature KeyUsageCertSign) KeyUsageCRLSign,
        ExtKeyUsage := [ExtKeyUsageServerAuth, ExtKeyUsageClientAuth, ExtKeyUsageCodeSigning,
          ExtKeyUsageEmailProtection, ExtKeyUsageTimeStamping],
        UnknownExtKeyUsage := [],
        MaxPathLen := 0, MaxPathLenZero := True\<rparr>"
  by (simp add: defaultIntermediateTemplate_rev2_def
      defaultRootTemplate_def DefaultIntermediateCertValidity_def DefaultRootCertValidity_def)

lemma intermediate_revisions_agree:
  "basicConstraints (defaultIntermediateTemplate_rev2 t n) = basicConstraints (defaultIntermediateTemplate t n)"
  "basicConstraints (defaultIntermediateTemplate_rev3 t n) = basicConstraints (defaultIntermediateTemplate t n)"
  "validity (defaultIntermediateTemplate_rev2 t n) = validity (defaultIntermediateTemplate t n)"
  "validity (defaultIntermediateTemplate_rev3 t n) = validity (defaultIntermediateTemplate t n)"
  by (simp_all add: basicConstraints_def validity_def defaultIntermediateTemplate_def
      defaultIntermediateTemplate_rev2_def defaultIntermediateTemplate_rev3_def)

text \<open>The two validity constants are values of a 64-bit \<^verbatim>\<open>time.Duration\<close>.\<close>

lemma validity_constants_int64:
  "DefaultRootCertValidity = 315360000000000000"
  "DefaultIntermediateCertValidity = 315360000000000000"
  "DefaultRootCertValidity < 2 ^ 63"
  by (simp_all add: DefaultRootCertValidity_def DefaultIntermediateCertValidity_def duration_defs)

lemma construct_role:
  assumes "construct e ep ops h = Inr (p, st)"
  shows "role p = roleOf ep"
proof (cases ep)
  case (RootFromName n)
  with assms have "NewRootProfile e n ops h = Inr (p, st)" by simp
  from NewRootProfile_Inr[OF this] RootFromName show ?thesis
    by (auto dest: newProfile_role)
next
  case (RootFromTemplate crt)
  with assms have "NewRootProfileWithTemplate e crt ops h = Inr (p, st)" by simp
  from NewRootProfileWithTemplate_Inr[OF this] RootFromTemplate show ?thesis
    by (auto dest: newProfile_role)
next
  case (IntermediateFromName n iss k)
  with assms show ?thesis
    by (auto simp: NewIntermediateProfile_eq dest: newProfile_role)
next
  case (LeafFromName cn iss k)
  with assms have "NewLeafProfile e cn iss k ops h = Inr (p, st)" by simp
  from NewLeafProfile_Inr[OF this] LeafFromName show ?thesis
    by (auto dest: newProfile_role)
next
  case (LeafFromTemplate sub iss k)
  with assms have "NewLeafProfileWithTemplate e sub iss k ops h = Inr (p, st)" by simp
  from NewLeafProfileWithTemplate_Inr[OF this] LeafFromTemplate show ?thesis
    by (auto dest: newProfile_role)
next
  case (LeafSelfSigned cn)
  with assms have "NewSelfSignedLeafProfile e cn ops h = Inr (p, st)" by simp
  from NewSelfSignedLeafProfile_Inr[OF this] LeafSelfSigned show ?thesis
    by (auto dest: newProfile_role)
next
  case (LeafFromRequest csr iss k)
  with assms have "NewLeafProfileWithCSR e csr iss k ops h = Inr (p, st)" by simp
  from NewLeafProfileWithCSR_Inr[OF this] LeafFromRequest show ?thesis
    by (auto dest: newProfile_role)
qed

subsection \<open>Self-signed profiles\<close>

text \<open>
  Claim C1. Every profile that \<^verbatim>\<open>NewRootProfileWithTemplate\<close>, \<^verbatim>\<open>NewRootProfile\<close> or
  \<^verbatim>\<open>NewSelfSignedLeafProfile\<close> returns has one object as issuer draft and as subject
  draft (the two addresses are equal, so a write through either is seen through the other),
  and its issuer private key equals its subject private key. The key is assigned to the
  state that the generic construction returned, that is, after every option has run:
  whatever an option wrote into the issuer key is overwritten.
\<close>

theorem self_signed_profiles:
  "(NewRootProfileWithTemplate e crt ops h = Inr (p, st) \<longrightarrow>
      issuer p = subject p \<and> crt = Some (subject p) \<and> issuerDraft p st = subjectDraft p st
      \<and> issPriv st = subPriv st
      \<and> (\<exists>st0. newProfile e Root crt crt None ops h = Inr (p, st0)
            \<and> st = SetIssuerPrivateKey (SubjectPrivateKey st0) st0))
   \<and> (NewRootProfile e n ops h = Inr (p, st) \<longrightarrow>
      issuer p = subject p \<and> subject p = fresh h \<and> issuerDraft p st = subjectDraft p st
      \<and> issPriv st = subPriv st
      \<and> (\<exists>st0. newProfile e Root (Some (fresh h)) (Some (fresh h)) None ops
              (snd (alloc h (defaultRootTemplate (now e) n))) = Inr (p, st0)
            \<and> st = SetIssuerPrivateKey (SubjectPrivateKey st0) st0))
   \<and> (NewSelfSignedLeafProfile e n ops h = Inr (p, st) \<longrightarrow>
      issuer p = subject p \<and> subject p = fresh h \<and> issuerDraft p st = subjectDraft p st
      \<and> issPriv st = subPriv st
      \<and> (\<exists>st0. newProfile e Leaf (Some (fresh h)) (Some (fresh h)) None ops
              (snd (alloc h (defaultLeafTemplate (now e) (DefaultCertValidity e)
                 (NameCN n) (NameCN n)))) = Inr (p, st0)
            \<and> st = SetIssuerPrivateKey (SubjectPrivateKey st0) st0))"
proof (intro conjI impI)
  assume a: "NewRootProfileWithTemplate e crt ops h = Inr (p, st)"
  from NewRootProfileWithTemplate_Inr[OF a] obtain st0 where
    n: "newProfile e Root crt crt None ops h = Inr (p, st0)"
    and s: "st = SetIssuerPrivateKey (SubjectPrivateKey st0) st0" by (elim exE conjE)
  from selfSigned_after_newProfile[OF n s] n s
  show "issuer p = subject p" "crt = Some (subject p)" "issuerDraft p st = subjectDraft p st"
    "issPriv st = subPriv st"
    "\<exists>st0. newProfile e Root crt crt None ops h = Inr (p, st0)
            \<and> st = SetIssuerPrivateKey (SubjectPrivateKey st0) st0"
    by blast+
next
  assume a: "NewRootProfile e n ops h = Inr (p, st)"
  from NewRootProfile_Inr[OF a] obtain st0 where
    n: "newProfile e Root (Some (fresh h)) (Some (fresh h)) None ops
              (snd (alloc h (defaultRootTemplate (now e) n))) = Inr (p, st0)"
    and s: "st = SetIssuerPrivateKey (SubjectPrivateKey st0) st0" by (elim exE conjE)
  from selfSigned_after_newProfile[OF n s] n s
  show "issuer p = subject p" "subject p = fresh h" "issuerDraft p st = subjectDraft p st"
    "issPriv st = subPriv st"
    "\<exists>st0. newProfile e Root (Some (fresh h)) (Some (fresh h)) None ops
              (snd (alloc h (defaultRootTemplate (now e) n))) = Inr (p, st0)
            \<and> st = SetIssuerPrivateKey (SubjectPrivateKey st0) st0"
    by auto
next
  assume a: "NewSelfSignedLeafProfile e n ops h = Inr (p, st)"
  from NewSelfSignedLeafProfile_Inr[OF a] obtain st0 where
    n: "newProfile e Leaf (Some (fresh h)) (Some (fresh h)) None ops
              (snd (alloc h (defaultLeafTemplate (now e) (DefaultCertValidity e)
                 (NameCN n) (NameCN n)))) = Inr (p, st0)"
    and s: "st = SetIssuerPrivateKey (SubjectPrivateKey st0) st0" by (elim exE conjE)
  from selfSigned_after_newProfile[OF n s] n s
  show "issuer p = subject p" "subject p = fresh h" "issuerDraft p st = subjectDraft p st"
    "issPriv st = subPriv st"
    "\<exists>st0. newProfile e Leaf (Some (fresh h)) (Some (fresh h)) None ops
              (snd (alloc h (defaultLeafTemplate (now e) (DefaultCertValidity e)
                 (NameCN n) (NameCN n)))) = Inr (p, st0)
            \<and> st = SetIssuerPrivateKey (SubjectPrivateKey st0) st0"
    by auto
qed

theorem self_signed_profiles_witness:
  "(\<exists>p st. NewRootProfileWithTemplate env0 (Some 0) [setKeys] store0 = Inr (p, st)
      \<and> issuer p = subject p \<and> issPriv st = subPriv st \<and> issPriv st = Some 9)
   \<and> (\<exists>p st. NewRootProfile env0 ''root-ca'' [setKeys] store0 = Inr (p, st)
      \<and> issuer p = subject p \<and> issPriv st = subPriv st \<and> issPriv st = Some 9)
   \<and> (\<exists>p st. NewSelfSignedLeafProfile env0 ''svc'' [] store0 = Inr (p, st)
      \<and> issuer p = subject p \<and> issPriv st = subPriv st \<and> issPriv st = Some 2)"
proof (intro conjI)
  obtain p st where r: "NewRootProfileWithTemplate env0 (Some 0) [setKeys] store0 = Inr (p, st)"
    and k: "subPriv st = Some 9"
    by (simp add: entry_defs setKeys_def env0_def store0_def)
  from self_signed_profiles[where e = env0 and crt = "Some 0" and ops = "[setKeys]"
      and h = store0 and p = p and st = st] r k
  show "\<exists>p st. NewRootProfileWithTemplate env0 (Some 0) [setKeys] store0 = Inr (p, st)
      \<and> issuer p = subject p \<and> issPriv st = subPriv st \<and> issPriv st = Some 9"
    by auto
next
  obtain p st where r: "NewRootProfile env0 ''root-ca'' [setKeys] store0 = Inr (p, st)"
    and k: "subPriv st = Some 9"
    by (simp add: entry_defs setKeys_def env0_def store0_def)
  from self_signed_profiles[where e = env0 and n = "''root-ca''" and ops = "[setKeys]"
      and h = store0 and p = p and st = st] r k
  show "\<exists>p st. NewRootProfile env0 ''root-ca'' [setKeys] store0 = Inr (p, st)
      \<and> issuer p = subject p \<and> issPriv st = subPriv st \<and> issPriv st = Some 9"
    by auto
next
  obtain p st where r: "NewSelfSignedLeafProfile env0 ''svc'' [] store0 = Inr (p, st)"
    and k: "subPriv st = Some 2"
    by (simp add: entry_defs env0_def store0_def)
  from self_signed_profiles[where e = env0 and n = "''svc''" and ops = "[]"
      and h = store0 and p = p and st = st] r k
  show "\<exists>p st. NewSelfSignedLeafProfile env0 ''svc'' [] store0 = Inr (p, st)
      \<and> issuer p = subject p \<and> issPriv st = subPriv st \<and> issPriv st = Some 2"
    by auto
qed

subsection \<open>The option pipeline\<close>



subsection \<open>A request without a public key\<close>

text \<open>
  Claim C3. \<^verbatim>\<open>NewLeafProfileWithCSR\<close> on a request whose public key is nil fails with the
  error \<^verbatim>\<open>MissingPublicKey\<close>, whatever the issuer, the issuer key, the options and the
  store are; the result is the error alone, so no profile reaches the caller.
\<close>

theorem csr_without_public_key:
  "csrPublicKey r = None \<Longrightarrow>
     NewLeafProfileWithCSR e (Some r) iss k ops h = Inl MissingPublicKey"
  by (simp add: NewLeafProfileWithCSR_def)

theorem csr_without_public_key_witness:
  "csrPublicKey (csr0\<lparr>csrPublicKey := None\<rparr>) = None
   \<and> NewLeafProfileWithCSR env0 (Some (csr0\<lparr>csrPublicKey := None\<rparr>)) (Some 0) (Some 7) [setKeys]
       store0 = Inl MissingPublicKey"
proof -
  have h: "csrPublicKey (csr0\<lparr>csrPublicKey := None\<rparr>) = None" by simp
  from csr_without_public_key[OF h] h show ?thesis by simp
qed

subsection \<open>The default templates\<close>

text \<open>
  Claim C4. For every name \<open>n\<close> and clock reading \<open>t\<close> the root default template has
  \<open>notAfter = notBefore + 10 years\<close> (ten times 365 days of 24 hours), is a CA, has the
  key usage digital signature, key encipherment, certificate signing and CRL signing and no
  other, the extended key usages any, server authentication, client authentication, code
  signing, email protection and time stamping, the three vendor identifiers (smart-card
  logon, document signing, document encryption), a path-length constraint that is present
  and equal to 1, and subject and issuer both the name with common name \<open>n\<close> alone. When
  the key-generation service answers, \<^verbatim>\<open>NewRootProfile\<close> with no options returns a
  profile whose subject draft is that template, whose role is root, whose default duration
  is the ten years, and whose draft is a CA.
\<close>

theorem root_default_template:
  "NotBefore (defaultRootTemplate t n) = t
   \<and> NotAfter (defaultRootTemplate t n) = Add t (Hour * 24 * 365 * 10)
   \<and> IsCA (defaultRootTemplate t n)
   \<and> KeyUsage (defaultRootTemplate t n) =
       or (or (or KeyUsageDigitalSignature KeyUsageKeyEncipherment) KeyUsageCertSign) KeyUsageCRLSign
   \<and> usagesOf (KeyUsage (defaultRootTemplate t n)) =
       [KeyUsageDigitalSignature, KeyUsageKeyEncipherment, KeyUsageCertSign, KeyUsageCRLSign]
   \<and> ExtKeyUsage (defaultRootTemplate t n) =
       [ExtKeyUsageAny, ExtKeyUsageServerAuth, ExtKeyUsageClientAuth, ExtKeyUsageCodeSigning,
        ExtKeyUsageEmailProtection, ExtKeyUsageTimeStamping]
   \<and> UnknownExtKeyUsage (defaultRootTemplate t n) =
       [oidSmartCardLogon, oidDocumentSigning, oidDocumentEncryption]
   \<and> BasicConstraintsValid (defaultRootTemplate t n)
   \<and> MaxPathLen (defaultRootTemplate t n) = 1
   \<and> \<not> MaxPathLenZero (defaultRootTemplate t n)
   \<and> Subject (defaultRootTemplate t n) = NameCN n
   \<and> Issuer (defaultRootTemplate t n) = NameCN n
   \<and> (generate e \<noteq> None \<longrightarrow> (\<exists>p st. NewRootProfile e n [] h = Inr (p, st)
         \<and> subjectDraft p st = defaultRootTemplate (now e) n
         \<and> role p = Root
         \<and> DefaultDuration e p = Hour * 24 * 365 * 10
         \<and> IsCA (subjectDraft p st)))"
proof -
  have tmpl: "defaultRootTemplate t' n = \<lparr>
     IsCA = True, NotBefore = t', NotAfter = Add t' DefaultRootCertValidity,
     PolicyIdentifiers = [], KeyUsage = 101,
     ExtKeyUsage = [ExtKeyUsageAny, ExtKeyUsageServerAuth, ExtKeyUsageClientAuth,
       ExtKeyUsageCodeSigning, ExtKeyUsageEmailProtection, ExtKeyUsageTimeStamping],
     UnknownExtKeyUsage = [oidSmartCardLogon, oidDocumentSigning, oidDocumentEncryption],
     BasicConstraintsValid = True, MaxPathLen = 1, MaxPathLenZero = False,
     Issuer = NameCN n, Subject = NameCN n, PublicKey = None, ExtraExtensions = [],
     DNSNames = [], EmailAddresses = [], IPAddresses = [], URIs = []\<rparr>"
    for t' by (simp add: defaultRootTemplate_def ku_defs)
  have usages: "usagesOf 101 =
      [KeyUsageDigitalSignature, KeyUsageKeyEncipherment, KeyUsageCertSign, KeyUsageCRLSign]"
    by (simp add: usagesOf_def allKeyUsages_def hasUsage_def ku_defs)
  have ku: "or (or (or KeyUsageDigitalSignature KeyUsageKeyEncipherment) KeyUsageCertSign)
      KeyUsageCRLSign = 101"
    by (simp add: ku_defs)
  have readback: "\<exists>p st. NewRootProfile e n [] h = Inr (p, st)
         \<and> subjectDraft p st = defaultRootTemplate (now e) n
         \<and> role p = Root
         \<and> DefaultDuration e p = Hour * 24 * 365 * 10
         \<and> IsCA (subjectDraft p st)" if "generate e \<noteq> None"
  proof -
    from that obtain pub priv where "generate e = Some (pub, priv)" by auto
    from NewRootProfile_no_options[OF this, of n h] show ?thesis
      by (simp add: subjectDraft_def alloc_def DefaultDuration_def DefaultRootCertValidity_def tmpl)
  qed
  show ?thesis
    using readback by (simp add: tmpl usages ku DefaultRootCertValidity_def)
qed

theorem root_default_template_witness:
  "generate env0 \<noteq> None \<and> (\<exists>p st. NewRootProfile env0 ''root-ca'' [] store0 = Inr (p, st)
         \<and> role p = Root
         \<and> DefaultDuration env0 p = 315360000000000000
         \<and> IsCA (subjectDraft p st))"
proof -
  have g: "generate env0 \<noteq> None" by (simp add: env0_def)
  with root_default_template[of 0 "''root-ca''" env0 store0] show ?thesis
    by (auto simp: duration_defs)
qed

text \<open>
  Claim C7. Every leaf default template is not a CA, has no path-length constraint (the
  basic constraints are not valid, the path length is 0 and its zero flag is off), and has
  exactly the key usages digital signature and key encipherment: neither certificate
  signing nor CRL signing.
\<close>

theorem leaf_default_template:
  "IsCA (defaultLeafTemplate t dcv s i) = False
   \<and> BasicConstraintsValid (defaultLeafTemplate t dcv s i) = False
   \<and> MaxPathLen (defaultLeafTemplate t dcv s i) = 0
   \<and> MaxPathLenZero (defaultLeafTemplate t dcv s i) = False
   \<and> KeyUsage (defaultLeafTemplate t dcv s i) = or KeyUsageDigitalSignature KeyUsageKeyEncipherment
   \<and> usagesOf (KeyUsage (defaultLeafTemplate t dcv s i)) =
       [KeyUsageDigitalSignature, KeyUsageKeyEncipherment]
   \<and> \<not> hasUsage (KeyUsage (defaultLeafTemplate t dcv s i)) KeyUsageCertSign
   \<and> \<not> hasUsage (KeyUsage (defaultLeafTemplate t dcv s i)) KeyUsageCRLSign"
  by (simp add: defaultLeafTemplate_def usagesOf_def allKeyUsages_def hasUsage_def ku_defs)



subsection \<open>Intermediate profiles\<close>




subsection \<open>Leaf profiles from a request\<close>

text \<open>
  An option that overrides the common name runs after the request's subject is copied:
  the subject draft of the returned profile then carries the option's name, not the
  request's.
\<close>

theorem leaf_from_request_counterexample:
  "map_option subjectCommonName (draftOf
     (NewLeafProfileWithCSR env0 (Some csr0) (Some 0) (Some 7) [WithCommonName ''other''] store0))
     = Some ''other''
   \<and> CommonName (csrSubject csr0) = ''svc''"
  by (simp add: draftOf_def subjectDraft_def subjectCommonName_def entry_defs csr0_def env0_def
      store0_def NameCN_def)

text \<open>
  Claim C8, amended. When no option of the caller's overwrites the subject, the DNS names,
  the email addresses, the IP addresses, the URIs or the extra extensions of the subject
  draft (in particular with no options), the profile that \<^verbatim>\<open>NewLeafProfileWithCSR\<close>
  returns has a subject draft whose subject is the request's, whose DNS names, email
  addresses, IP addresses and URIs are the request's lists, in their order, and whose extra
  extensions are the request's extensions; a request with the DNS names \<^verbatim>\<open>a.example\<close>,
  \<^verbatim>\<open>b.example\<close> gives a draft with those two names in that order.
\<close>

theorem leaf_from_request:
  assumes "NewLeafProfileWithCSR e csr iss k ops h = Inr (p, st)"
    and "\<forall>opt\<in>set ops. keeps requestFields opt"
  shows "\<exists>r. csr = Some r
    \<and> Subject (subjectDraft p st) = csrSubject r
    \<and> DNSNames (subjectDraft p st) = csrDNSNames r
    \<and> EmailAddresses (subjectDraft p st) = csrEmailAddresses r
    \<and> IPAddresses (subjectDraft p st) = csrIPAddresses r
    \<and> URIs (subjectDraft p st) = csrURIs r
    \<and> ExtraExtensions (subjectDraft p st) = csrExtensions r"
proof -
  from NewLeafProfileWithCSR_Inr[OF assms(1)] obtain r :: CertificateRequest and ic :: Certificate
    where csr: "csr = Some r"
      and np: "newProfile e Leaf (Some (fresh h)) iss k (ops @ [WithPublicKey (csrPublicKey r)])
        (modify (fresh h) (\<lambda>c. c\<lparr>
            ExtraExtensions := csrExtensions r,
            DNSNames := csrDNSNames r,
            EmailAddresses := csrEmailAddresses r,
            IPAddresses := csrIPAddresses r,
            URIs := csrURIs r\<rparr>)
          (snd (alloc h
            (defaultLeafTemplate (now e) (DefaultCertValidity e) (csrSubject r) (Subject ic)))))
        = Inr (p, st)"
    by (elim exE conjE)
  from assms(2) have "\<forall>opt\<in>set (ops @ [WithPublicKey (csrPublicKey r)]). keeps requestFields opt"
    by (simp add: keeps_WithPublicKey)
  from newProfile_keeps[OF np this]
  have "requestFields (subjectDraft p st) = (csrSubject r, csrDNSNames r, csrEmailAddresses r,
      csrIPAddresses r, csrURIs r, csrExtensions r)"
    by (simp add: alloc_def modify_def requestFields_def defaultLeafTemplate_def)
  with csr show ?thesis by (simp add: requestFields_def)
qed

theorem leaf_from_request_witness:
  "\<exists>p st. NewLeafProfileWithCSR env0 (Some csr0) (Some 0) (Some 7) [] store0 = Inr (p, st)
     \<and> DNSNames (subjectDraft p st) = [''a.example'', ''b.example'']
     \<and> Subject (subjectDraft p st) = NameCN ''svc''
     \<and> ExtraExtensions (subjectDraft p st) = [([2, 5, 29, 17], False, [48, 0])]"
proof -
  obtain p st where r: "NewLeafProfileWithCSR env0 (Some csr0) (Some 0) (Some 7) [] store0
      = Inr (p, st)"
    by (simp add: entry_defs env0_def store0_def csr0_def)
  have k: "\<forall>opt\<in>set []. keeps requestFields opt" by simp
  from leaf_from_request[OF r k] r show ?thesis by (auto simp: csr0_def)
qed

subsection \<open>Default validity\<close>

text \<open>
  \<^verbatim>\<open>NewRootProfileWithTemplate\<close> on a root certificate that is valid for one year, with
  no option: the returned root profile's draft is valid for one year (31536000000000000
  nanoseconds), its default duration is ten years.
\<close>

theorem default_validity_counterexample:
  "map_option validity (draftOf (NewRootProfileWithTemplate env0 (Some 0) [] store1))
     = Some 31536000000000000
   \<and> map_option (DefaultDuration env0) (profileOf (NewRootProfileWithTemplate env0 (Some 0) [] store1))
     = Some 315360000000000000"
  by (simp add: draftOf_def profileOf_def subjectDraft_def entry_defs env0_def store1_def
      shortLivedRoot_def defaultRootTemplate_def validity_def Add_def Sub_def DefaultDuration_def
      DefaultRootCertValidity_def duration_defs)

text \<open>
  Claim C9, amended. For every entry point that derives the subject draft from the role's
  default template (all but \<^verbatim>\<open>NewRootProfileWithTemplate\<close> and
  \<^verbatim>\<open>NewLeafProfileWithTemplate\<close>), when no option of the caller's changes the validity of
  the subject draft, \<open>notAfter - notBefore\<close> of the constructed profile's subject draft is
  the role's default duration: \<^verbatim>\<open>DefaultRootCertValidity\<close> for a root,
  \<^verbatim>\<open>DefaultIntermediateCertValidity\<close> for an intermediate, \<^verbatim>\<open>DefaultCertValidity\<close> for
  a leaf. The two entry points that take a template keep the validity of the template.
\<close>

theorem default_validity:
  assumes "construct e ep ops h = Inr (p, st)"
    and "\<forall>opt\<in>set ops. keeps validity opt"
  shows "(usesDefaultTemplate ep \<longrightarrow> validity (subjectDraft p st) = DefaultDuration e p)
    \<and> (ep = RootFromTemplate (Some a) \<or> ep = LeafFromTemplate (Some a) i k \<longrightarrow>
         validity (subjectDraft p st) = validity (mem h a))
    \<and> role p = roleOf ep
    \<and> DefaultDuration e p = (case roleOf ep of
           Root \<Rightarrow> DefaultRootCertValidity
         | Intermediate \<Rightarrow> DefaultIntermediateCertValidity
         | Leaf \<Rightarrow> DefaultCertValidity e)"
proof -
  note ks = assms(2) keeps_append_forced[OF assms(2)]
  have main: "(usesDefaultTemplate ep \<longrightarrow> validity (subjectDraft p st) = DefaultDuration e p)
    \<and> (ep = RootFromTemplate (Some a) \<or> ep = LeafFromTemplate (Some a) i k \<longrightarrow>
         validity (subjectDraft p st) = validity (mem h a))"
  proof (cases ep)
    case (RootFromName n)
    with assms have "NewRootProfile e n ops h = Inr (p, st)" by simp
    from NewRootProfile_Inr[OF this] obtain st0 where
      np: "newProfile e Root (Some (fresh h)) (Some (fresh h)) None ops
          (snd (alloc h (defaultRootTemplate (now e) n))) = Inr (p, st0)"
      and s: "st = SetIssuerPrivateKey (SubjectPrivateKey st0) st0" by (elim exE conjE)
    from newProfile_keeps[OF np ks(1)] newProfile_role[OF np] s RootFromName show ?thesis
      by (simp add: validity_self_sign alloc_def validity_def defaultRootTemplate_def
          DefaultDuration_def Add_def Sub_def usesDefaultTemplate_def)
  next
    case (RootFromTemplate crt)
    with assms have "NewRootProfileWithTemplate e crt ops h = Inr (p, st)" by simp
    from NewRootProfileWithTemplate_Inr[OF this] obtain st0 where
      np: "newProfile e Root crt crt None ops h = Inr (p, st0)"
      and s: "st = SetIssuerPrivateKey (SubjectPrivateKey st0) st0" by (elim exE conjE)
    show ?thesis
    proof (cases "crt = Some a")
      case True
      with np have "newProfile e Root (Some a) crt None ops h = Inr (p, st0)" by simp
      from newProfile_keeps[OF this ks(1)] s RootFromTemplate show ?thesis
        by (simp add: validity_self_sign usesDefaultTemplate_def)
    next
      case False
      with RootFromTemplate show ?thesis by (simp add: usesDefaultTemplate_def)
    qed
  next
    case (IntermediateFromName n iss' k')
    with assms have np: "newProfile e Intermediate (Some (fresh h)) iss' k' ops
       (snd (alloc h (defaultIntermediateTemplate (now e) n))) = Inr (p, st)"
      by (simp add: NewIntermediateProfile_eq)
    from newProfile_keeps[OF np ks(1)] newProfile_role[OF np] IntermediateFromName show ?thesis
      by (simp add: alloc_def validity_def defaultIntermediateTemplate_def
          DefaultDuration_def Add_def Sub_def usesDefaultTemplate_def)
  next
    case (LeafFromName cn iss' k')
    with assms have "NewLeafProfile e cn iss' k' ops h = Inr (p, st)" by simp
    from NewLeafProfile_Inr[OF this] obtain ic :: Certificate where
      np: "newProfile e Leaf (Some (fresh h)) iss' k' ops (snd (alloc h
           (defaultLeafTemplate (now e) (DefaultCertValidity e) (NameCN cn) (Subject ic))))
         = Inr (p, st)" by (elim exE conjE)
    from newProfile_keeps[OF np ks(1)] newProfile_role[OF np] LeafFromName show ?thesis
      by (simp add: alloc_def validity_def defaultLeafTemplate_def
          DefaultDuration_def Add_def Sub_def usesDefaultTemplate_def)
  next
    case (LeafFromTemplate sub iss' k')
    with assms have "NewLeafProfileWithTemplate e sub iss' k' ops h = Inr (p, st)" by simp
    from NewLeafProfileWithTemplate_Inr[OF this] obtain s :: addr where sub: "sub = Some s" and
      np: "newProfile e Leaf sub iss' k' (ops @ [WithPublicKey (PublicKey (mem h s))]) h = Inr (p, st)"
      by (elim exE conjE)
    from np sub have "newProfile e Leaf (Some s) iss' k'
        (ops @ [WithPublicKey (PublicKey (mem h s))]) h = Inr (p, st)" by simp
    from newProfile_keeps[OF this ks(2)] sub LeafFromTemplate show ?thesis
      by (auto simp: usesDefaultTemplate_def)
  next
    case (LeafSelfSigned cn)
    with assms have "NewSelfSignedLeafProfile e cn ops h = Inr (p, st)" by simp
    from NewSelfSignedLeafProfile_Inr[OF this] obtain st0 where
      np: "newProfile e Leaf (Some (fresh h)) (Some (fresh h)) None ops (snd (alloc h
           (defaultLeafTemplate (now e) (DefaultCertValidity e) (NameCN cn) (NameCN cn))))
         = Inr (p, st0)"
      and s: "st = SetIssuerPrivateKey (SubjectPrivateKey st0) st0" by (elim exE conjE)
    from newProfile_keeps[OF np ks(1)] newProfile_role[OF np] s LeafSelfSigned show ?thesis
      by (simp add: validity_self_sign alloc_def validity_def defaultLeafTemplate_def
          DefaultDuration_def Add_def Sub_def usesDefaultTemplate_def)
  next
    case (LeafFromRequest csr iss' k')
    with assms have "NewLeafProfileWithCSR e csr iss' k' ops h = Inr (p, st)" by simp
    from NewLeafProfileWithCSR_Inr[OF this] obtain r :: CertificateRequest and ic :: Certificate
      where np: "newProfile e Leaf (Some (fresh h)) iss' k' (ops @ [WithPublicKey (csrPublicKey r)])
        (modify (fresh h) (\<lambda>c. c\<lparr>
            ExtraExtensions := csrExtensions r,
            DNSNames := csrDNSNames r,
            EmailAddresses := csrEmailAddresses r,
            IPAddresses := csrIPAddresses r,
            URIs := csrURIs r\<rparr>)
          (snd (alloc h
            (defaultLeafTemplate (now e) (DefaultCertValidity e) (csrSubject r) (Subject ic)))))
        = Inr (p, st)"
      by (elim exE conjE)
    from newProfile_keeps[OF np ks(2)] newProfile_role[OF np] LeafFromRequest show ?thesis
      by (simp add: alloc_def modify_def validity_def defaultLeafTemplate_def
          DefaultDuration_def Add_def Sub_def usesDefaultTemplate_def)
  qed
  with construct_role[OF assms(1)] show ?thesis by (simp add: DefaultDuration_def)
qed

theorem default_validity_witness:
  "(\<exists>p st. construct env0 (RootFromName ''root-ca'') [WithCommonName ''x''] store0 = Inr (p, st)
      \<and> keeps validity (WithCommonName ''x'')
      \<and> usesDefaultTemplate (RootFromName ''root-ca'')
      \<and> validity (subjectDraft p st) = 315360000000000000 \<and> role p = Root)
   \<and> (\<exists>p st. construct env0 (IntermediateFromName ''ca'' (Some 0) (Some 7)) [] store0 = Inr (p, st)
      \<and> usesDefaultTemplate (IntermediateFromName ''ca'' (Some 0) (Some 7))
      \<and> validity (subjectDraft p st) = 315360000000000000 \<and> role p = Intermediate)
   \<and> (\<exists>p st. construct env0 (LeafFromRequest (Some csr0) (Some 0) (Some 7)) [] store0 = Inr (p, st)
      \<and> usesDefaultTemplate (LeafFromRequest (Some csr0) (Some 0) (Some 7))
      \<and> validity (subjectDraft p st) = 86400000000000 \<and> role p = Leaf)
   \<and> (\<exists>p st. construct env0 (RootFromTemplate (Some 0)) [] store1 = Inr (p, st)
      \<and> validity (subjectDraft p st) = validity (mem store1 0))"
proof (intro conjI)
  obtain p st where r: "construct env0 (RootFromName ''root-ca'') [WithCommonName ''x''] store0
      = Inr (p, st)" and ro: "role p = Root"
    by (simp add: entry_defs env0_def store0_def)
  have k: "keeps validity (WithCommonName ''x'')"
    by (auto simp: keeps_def WithCommonName_def subjectDraft_def modify_def validity_def)
  then have k': "\<forall>opt\<in>set [WithCommonName ''x'']. keeps validity opt" by simp
  have u: "usesDefaultTemplate (RootFromName ''root-ca'')" by (simp add: usesDefaultTemplate_def)
  from default_validity[OF r k'] r ro k u
  show "\<exists>p st. construct env0 (RootFromName ''root-ca'') [WithCommonName ''x''] store0 = Inr (p, st)
      \<and> keeps validity (WithCommonName ''x'')
      \<and> usesDefaultTemplate (RootFromName ''root-ca'')
      \<and> validity (subjectDraft p st) = 315360000000000000 \<and> role p = Root"
    by (auto simp: DefaultRootCertValidity_def duration_defs)
next
  obtain p st where r: "construct env0 (IntermediateFromName ''ca'' (Some 0) (Some 7)) [] store0
      = Inr (p, st)" and ro: "role p = Intermediate"
    by (simp add: entry_defs env0_def store0_def)
  have k': "\<forall>opt\<in>set []. keeps validity opt" by simp
  have u: "usesDefaultTemplate (IntermediateFromName ''ca'' (Some 0) (Some 7))"
    by (simp add: usesDefaultTemplate_def)
  from default_validity[OF r k'] r ro u
  show "\<exists>p st. construct env0 (IntermediateFromName ''ca'' (Some 0) (Some 7)) [] store0 = Inr (p, st)
      \<and> usesDefaultTemplate (IntermediateFromName ''ca'' (Some 0) (Some 7))
      \<and> validity (subjectDraft p st) = 315360000000000000 \<and> role p = Intermediate"
    by (auto simp: DefaultIntermediateCertValidity_def duration_defs)
next
  obtain p st where r: "construct env0 (LeafFromRequest (Some csr0) (Some 0) (Some 7)) [] store0
      = Inr (p, st)" and ro: "role p = Leaf"
    by (simp add: entry_defs env0_def store0_def csr0_def)
  have k': "\<forall>opt\<in>set []. keeps validity opt" by simp
  have u: "usesDefaultTemplate (LeafFromRequest (Some csr0) (Some 0) (Some 7))"
    by (simp add: usesDefaultTemplate_def)
  from default_validity[OF r k'] r ro u
  show "\<exists>p st. construct env0 (LeafFromRequest (Some csr0) (Some 0) (Some 7)) [] store0 = Inr (p, st)
      \<and> usesDefaultTemplate (LeafFromRequest (Some csr0) (Some 0) (Some 7))
      \<and> validity (subjectDraft p st) = 86400000000000 \<and> role p = Leaf"
    by (auto simp: env0_def duration_defs)
next
  obtain p st where r: "construct env0 (RootFromTemplate (Some 0)) [] store1 = Inr (p, st)"
    by (simp add: entry_defs env0_def store1_def)
  have k': "\<forall>opt\<in>set []. keeps validity opt" by simp
  from default_validity[OF r k', where a = 0] r
  show "\<exists>p st. construct env0 (RootFromTemplate (Some 0)) [] store1 = Inr (p, st)
      \<and> validity (subjectDraft p st) = validity (mem store1 0)"
    by auto
qed

subsection \<open>The forced public key\<close>




end
